theory Spec2Isabelle
  imports Complex_Main "HOL-Library.Multiset"
begin

section \<open>The task store utilities: show_task.py and check_tasks.py\<close>

text \<open>
  The two scripts read the file \<open>project-tasks.json\<close> with \<open>json.load\<close> and print to
  the standard output. A run is modelled by the list of its observable events, in order
  (the opening of the file, each call of \<open>print\<close>), and by the way it ends: falling off
  the end of the script, \<open>sys.exit(n)\<close>, or an exception that nothing catches.
\<close>

subsection \<open>Values loaded by json.load\<close>

text \<open>
  \<open>json.load\<close> yields \<open>None\<close>, booleans, integers, floats, strings, lists and
  dictionaries. A finite float is kept as the rational it denotes (the truth test and
  \<open>==\<close> read nothing else of it); \<open>json.load\<close> also accepts \<open>Infinity\<close>,
  \<open>-Infinity\<close> and \<open>NaN\<close>. A dictionary is an association list read with
  \<open>map_of\<close>: the first binding of a key is its value.
\<close>

datatype pyfloat = Finite rat | PosInf | NegInf | NaN

datatype json =
    JNull
  | JBool bool
  | JInt int
  | JFloat pyfloat
  | JStr string
  | JList "json list"
  | JObj "(string \<times> json) list"

datatype exn = LoadError | ValueError | KeyError | TypeError | AttributeError

text \<open>
  \<open>LoadError\<close> stands for whatever \<open>open\<close> or \<open>json.load\<close> raises (a missing or
  unreadable file, text that is not JSON).
\<close>

datatype piece = Text string | Val json

text \<open>
  A printed line is a list of pieces: literal text of the source's f-string, and values
  that the f-string formats with \<open>str\<close>. An empty list is the empty line of \<open>print()\<close>.
\<close>

datatype event = OpenFile string | Print "piece list"

datatype status = Finished | SysExit int | Uncaught exn

record run =
  trace :: "event list"
  status :: status

definition exit_status :: "status \<Rightarrow> int" where
  "exit_status s = (case s of Finished \<Rightarrow> 0 | SysExit n \<Rightarrow> n | Uncaught e \<Rightarrow> 1)"

definition halt :: "status \<Rightarrow> run" where
  "halt s = \<lparr>trace = [], status = s\<rparr>"

definition emit :: "event \<Rightarrow> run \<Rightarrow> run" where
  "emit e r = \<lparr>trace = e # trace r, status = status r\<rparr>"

definition nl :: char where
  "nl = CHR 0x0A"

subsection \<open>The Python operations the scripts use\<close>

text \<open>\<open>bool(v)\<close>: the truth value of a loaded value.\<close>

fun truthy :: "json \<Rightarrow> bool" where
  "truthy JNull = False"
| "truthy (JBool b) = b"
| "truthy (JInt n) = (n \<noteq> 0)"
| "truthy (JFloat (Finite q)) = (q \<noteq> 0)"
| "truthy (JFloat PosInf) = True"
| "truthy (JFloat NegInf) = True"
| "truthy (JFloat NaN) = True"
| "truthy (JStr s) = (s \<noteq> [])"
| "truthy (JList xs) = (xs \<noteq> [])"
| "truthy (JObj kvs) = (kvs \<noteq> [])"

text \<open>\<open>v == k\<close> for a loaded value \<open>v\<close> and an integer \<open>k\<close>.\<close>

fun py_eq_int :: "json \<Rightarrow> int \<Rightarrow> bool" where
  "py_eq_int (JInt n) k = (n = k)"
| "py_eq_int (JBool b) k = ((if b then 1 else 0) = k)"
| "py_eq_int (JFloat (Finite q)) k = (q = of_int k)"
| "py_eq_int (JFloat PosInf) k = False"
| "py_eq_int (JFloat NegInf) k = False"
| "py_eq_int (JFloat NaN) k = False"
| "py_eq_int JNull k = False"
| "py_eq_int (JStr s) k = False"
| "py_eq_int (JList xs) k = False"
| "py_eq_int (JObj kvs) k = False"

text \<open>\<open>v[key]\<close> with a string key: a dictionary is looked up, anything else raises.\<close>

fun subscript :: "json \<Rightarrow> string \<Rightarrow> exn + json" where
  "subscript (JObj kvs) key = (case map_of kvs key of None \<Rightarrow> Inl KeyError | Some v \<Rightarrow> Inr v)"
| "subscript JNull key = Inl TypeError"
| "subscript (JBool b) key = Inl TypeError"
| "subscript (JInt n) key = Inl TypeError"
| "subscript (JFloat x) key = Inl TypeError"
| "subscript (JStr s) key = Inl TypeError"
| "subscript (JList xs) key = Inl TypeError"

text \<open>\<open>v.get(key, default)\<close>: only a dictionary has the method.\<close>

fun py_get :: "json \<Rightarrow> string \<Rightarrow> json \<Rightarrow> exn + json" where
  "py_get (JObj kvs) key dflt = (case map_of kvs key of None \<Rightarrow> Inr dflt | Some v \<Rightarrow> Inr v)"
| "py_get JNull key dflt = Inl AttributeError"
| "py_get (JBool b) key dflt = Inl AttributeError"
| "py_get (JInt n) key dflt = Inl AttributeError"
| "py_get (JFloat x) key dflt = Inl AttributeError"
| "py_get (JStr s) key dflt = Inl AttributeError"
| "py_get (JList xs) key dflt = Inl AttributeError"

text \<open>
  Iteration (\<open>for t in v\<close>, a comprehension over \<open>v\<close>): a list gives its elements, a
  dictionary its keys in order, a string its characters; anything else raises.
\<close>

fun dict_keys :: "(string \<times> json) list \<Rightarrow> string list" where
  "dict_keys [] = []"
| "dict_keys ((k, v) # kvs) = k # filter (\<lambda>k'. k' \<noteq> k) (dict_keys kvs)"

fun py_iter :: "json \<Rightarrow> exn + json list" where
  "py_iter (JList xs) = Inr xs"
| "py_iter (JObj kvs) = Inr (map JStr (dict_keys kvs))"
| "py_iter (JStr s) = Inr (map (\<lambda>c. JStr [c]) s)"
| "py_iter JNull = Inl TypeError"
| "py_iter (JBool b) = Inl TypeError"
| "py_iter (JInt n) = Inl TypeError"
| "py_iter (JFloat x) = Inl TypeError"

text \<open>
  The builtin \<open>int\<close> is not code of the scripts: the model of \<open>show_task.py\<close> below
  takes it as the parameter \<open>int_of\<close>, where \<open>int_of s = Some k\<close> says that \<open>int(s)\<close>
  returns \<open>k\<close> and \<open>int_of s = None\<close> that it raises \<open>ValueError\<close>. The statements
  about all arguments hold for every such function.

  \<open>py_int\<close> is \<open>int(s)\<close> on a string of ASCII characters that has no more digits than
  the interpreter allows in an integer string (4300 by default, where there is a limit):
  the white space of the C locale (codes 9 to 13 and 32) is stripped at both ends, one
  sign may lead, and decimal digits follow, where single underscores may stand between
  digits. The concrete runs below use it, at short ASCII literals.
\<close>

definition is_space :: "char \<Rightarrow> bool" where
  "is_space c = (of_char c \<in> set [9, 10, 11, 12, 13, 32 :: nat])"

definition strip :: "string \<Rightarrow> string" where
  "strip s = rev (dropWhile is_space (rev (dropWhile is_space s)))"

definition digit_of :: "char \<Rightarrow> nat option" where
  "digit_of c = (let n = of_char c :: nat in if 48 \<le> n \<and> n \<le> 57 then Some (n - 48) else None)"

fun digits :: "bool \<Rightarrow> nat \<Rightarrow> string \<Rightarrow> nat option" where
  "digits need acc [] = (if need then None else Some acc)"
| "digits need acc (c # cs) =
     (case digit_of c of
        Some d \<Rightarrow> digits False (10 * acc + d) cs
      | None \<Rightarrow> if c = CHR ''_'' \<and> \<not> need then digits True acc cs else None)"

definition py_int :: "string \<Rightarrow> int option" where
  "py_int s =
     (case strip s of
        [] \<Rightarrow> None
      | c # cs \<Rightarrow>
          if c = CHR ''-'' then map_option (\<lambda>n. - int n) (digits True 0 cs)
          else if c = CHR ''+'' then map_option int (digits True 0 cs)
          else map_option int (digits True 0 (c # cs)))"

subsection \<open>show_task.py\<close>

definition usage :: "piece list" where
  "usage = [Text ''Usage: python show_task.py <task_id>'']"

definition not_found :: "int \<Rightarrow> piece list" where
  "not_found task_id = [Text ''Task '', Val (JInt task_id), Text '' not found'']"

definition store_path :: string where
  "store_path = ''project-tasks.json''"

text \<open>The body of the loop once \<open>t['id'] == task_id\<close> holds: four prints, then \<open>break\<close>.\<close>

definition print_task :: "json \<Rightarrow> json \<Rightarrow> run" where
  "print_task t ident =
     (case subscript t ''title'' of
        Inl e \<Rightarrow> halt (Uncaught e)
      | Inr title \<Rightarrow>
          emit (Print [Text ''# '', Val ident, Text '': '', Val title])
          (case py_get t ''passes'' (JBool False) of
             Inl e \<Rightarrow> halt (Uncaught e)
           | Inr p \<Rightarrow>
               emit (Print [Text ''passes: '', Val p])
               (case py_get t ''description'' (JStr []) of
                  Inl e \<Rightarrow> halt (Uncaught e)
                | Inr d \<Rightarrow>
                    emit (Print [Text (nl # ''Description:'' @ [nl]), Val d])
                    (case py_get t ''acceptanceCriteria'' (JStr []) of
                       Inl e \<Rightarrow> halt (Uncaught e)
                     | Inr a \<Rightarrow>
                         emit (Print [Text (nl # ''Acceptance criteria (Gherkin):'' @ [nl]), Val a])
                         (halt Finished)))))"

text \<open>The \<open>for\<close> loop with its \<open>else\<close> branch, which runs when no \<open>break\<close> did.\<close>

fun scan :: "int \<Rightarrow> json list \<Rightarrow> run" where
  "scan task_id [] = emit (Print (not_found task_id)) (halt (SysExit 1))"
| "scan task_id (t # ts) =
     (case subscript t ''id'' of
        Inl e \<Rightarrow> halt (Uncaught e)
      | Inr ident \<Rightarrow>
          if py_eq_int ident task_id then print_task t ident
          else scan task_id ts)"

text \<open>Everything from the \<open>with open\<close> statement on.\<close>

definition lookup :: "int \<Rightarrow> json option \<Rightarrow> run" where
  "lookup task_id file =
     emit (OpenFile store_path)
     (case file of
        None \<Rightarrow> halt (Uncaught LoadError)
      | Some obj \<Rightarrow>
          (case subscript obj ''tasks'' of
             Inl e \<Rightarrow> halt (Uncaught e)
           | Inr tasks \<Rightarrow>
               (case py_iter tasks of
                  Inl e \<Rightarrow> halt (Uncaught e)
                | Inr ts \<Rightarrow> scan task_id ts)))"

text \<open>
  The script. \<open>int_of\<close> is the builtin \<open>int\<close>; \<open>args\<close> is \<open>sys.argv[1:]\<close>;
  \<open>file\<close> is what \<open>open\<close> and \<open>json.load\<close> give for the store (\<open>None\<close> when they
  raise). \<open>not task_id\<close> holds of \<open>None\<close> and of \<open>0\<close>.
\<close>

definition show_task :: "(string \<Rightarrow> int option) \<Rightarrow> string list \<Rightarrow> json option \<Rightarrow> run" where
  "show_task int_of args file =
     (case args of
        [] \<Rightarrow> emit (Print usage) (halt (SysExit 1))
      | a # rest \<Rightarrow>
          (case int_of a of
             None \<Rightarrow> halt (Uncaught ValueError)
           | Some task_id \<Rightarrow>
               if task_id = 0 then emit (Print usage) (halt (SysExit 1))
               else lookup task_id file))"

subsection \<open>check_tasks.py\<close>

text \<open>
  A comprehension \<open>[t for t in tasks if c(t)]\<close> whose condition may raise: the first
  element on which it raises ends the run.
\<close>

fun comprehension :: "(json \<Rightarrow> exn + bool) \<Rightarrow> json list \<Rightarrow> exn + json list" where
  "comprehension c [] = Inr []"
| "comprehension c (t # ts) =
     (case c t of
        Inl e \<Rightarrow> Inl e
      | Inr b \<Rightarrow>
          (case comprehension c ts of
             Inl e \<Rightarrow> Inl e
           | Inr r \<Rightarrow> Inr (if b then t # r else r)))"

text \<open>\<open>t.get('passes', False)\<close> as a condition, and its negation.\<close>

definition passes :: "json \<Rightarrow> exn + bool" where
  "passes t = (case py_get t ''passes'' (JBool False) of Inl e \<Rightarrow> Inl e | Inr v \<Rightarrow> Inr (truthy v))"

definition not_passes :: "json \<Rightarrow> exn + bool" where
  "not_passes t = (case py_get t ''passes'' (JBool False) of Inl e \<Rightarrow> Inl e | Inr v \<Rightarrow> Inr (\<not> truthy v))"

definition count_line :: "string \<Rightarrow> nat \<Rightarrow> event" where
  "count_line label n = Print [Text label, Val (JInt (int n))]"

text \<open>Lines 14 to 20: the next task that does not pass, or the message that all do.\<close>

definition report_next :: "json list \<Rightarrow> run" where
  "report_next remaining =
     (case remaining of
        [] \<Rightarrow> emit (Print [Text ''All tasks are passing!'']) (halt Finished)
      | t # _ \<Rightarrow>
          emit (Print [Text ''Next not-passing task:''])
          (case subscript t ''id'' of
             Inl e \<Rightarrow> halt (Uncaught e)
           | Inr ident \<Rightarrow>
               emit (Print [Text ''  ID: '', Val ident])
               (case subscript t ''title'' of
                  Inl e \<Rightarrow> halt (Uncaught e)
                | Inr title \<Rightarrow>
                    emit (Print [Text ''  Title: '', Val title]) (halt Finished))))"

definition check_tasks :: "json option \<Rightarrow> run" where
  "check_tasks file =
     emit (OpenFile store_path)
     (case file of
        None \<Rightarrow> halt (Uncaught LoadError)
      | Some data \<Rightarrow>
          (case subscript data ''tasks'' of
             Inl e \<Rightarrow> halt (Uncaught e)
           | Inr tasks \<Rightarrow>
               (case py_iter tasks of
                  Inl e \<Rightarrow> halt (Uncaught e)
                | Inr ts \<Rightarrow>
                    (case comprehension not_passes ts of
                       Inl e \<Rightarrow> halt (Uncaught e)
                     | Inr remaining \<Rightarrow>
                         emit (count_line ''Total: '' (length ts))
                         (case comprehension passes ts of
                            Inl e \<Rightarrow> halt (Uncaught e)
                          | Inr passing \<Rightarrow>
                              emit (count_line ''Passing: '' (length passing))
                              (emit (count_line ''Remaining: '' (length remaining))
                              (emit (Print [])
                              (report_next remaining))))))))"

subsection \<open>Vocabulary of the statements\<close>

text \<open>
  A record is a dictionary; \<open>has_key\<close> says that \<open>t[key]\<close> does not raise,
  \<open>id_is k\<close> that \<open>t['id'] == k\<close> is true, and \<open>id_differs k\<close> that it is false (in
  both cases, that it does not raise). The example store is the one of the
  specification's examples; the others hold a record with \<open>id\<close> 0, a record without a
  \<open>title\<close>, a record without an \<open>id\<close> before one with \<open>id\<close> 2, a record with a
  negative \<open>id\<close>, and no record at all.
\<close>

definition is_record :: "json \<Rightarrow> bool" where
  "is_record t = (case t of JObj kvs \<Rightarrow> True | _ \<Rightarrow> False)"

definition has_key :: "string \<Rightarrow> json \<Rightarrow> bool" where
  "has_key key t = (case subscript t key of Inl e \<Rightarrow> False | Inr v \<Rightarrow> True)"

definition id_is :: "int \<Rightarrow> json \<Rightarrow> bool" where
  "id_is k t = (case subscript t ''id'' of Inl e \<Rightarrow> False | Inr v \<Rightarrow> py_eq_int v k)"

definition id_differs :: "int \<Rightarrow> json \<Rightarrow> bool" where
  "id_differs k t = (case subscript t ''id'' of Inl e \<Rightarrow> False | Inr v \<Rightarrow> \<not> py_eq_int v k)"

definition example_store :: json where
  "example_store =
     JObj [(''tasks'', JList
       [JObj [(''id'', JInt 1), (''title'', JStr ''A''), (''passes'', JBool True)],
        JObj [(''id'', JInt 2), (''title'', JStr ''B'')]])]"

definition zero_store :: json where
  "zero_store = JObj [(''tasks'', JList [JObj [(''id'', JInt 0), (''title'', JStr ''Z'')]])]"



definition negative_store :: json where
  "negative_store =
     JObj [(''tasks'', JList
       [JObj [(''id'', JInt 1), (''title'', JStr ''A'')],
        JObj [(''id'', JInt (- 3)), (''title'', JStr ''N''), (''description'', JStr ''below zero'')]])]"

definition empty_store :: json where
  "empty_store = JObj [(''tasks'', JList [])]"

section \<open>Properties\<close>

subsection \<open>Auxiliary facts\<close>

lemmas arg_defs = py_int_def strip_def is_space_def digit_of_def

lemmas run_defs = emit_def halt_def exit_status_def usage_def not_found_def store_path_def
  count_line_def nl_def

lemma is_record_cases: "is_record t \<Longrightarrow> \<exists>kvs. t = JObj kvs"
  by (cases t) (simp_all add: is_record_def)

lemma comprehension_filter:
  "\<forall>t \<in> set ts. \<exists>b. c t = Inr b \<Longrightarrow>
   comprehension c ts = Inr (filter (\<lambda>t. c t = Inr True) ts)"
  by (induction ts) auto

lemma passes_record: "is_record t \<Longrightarrow> \<exists>b. passes t = Inr b"
  by (auto dest!: is_record_cases simp: passes_def split: option.splits)

lemma not_passes_record: "is_record t \<Longrightarrow> \<exists>b. not_passes t = Inr b"
  by (auto dest!: is_record_cases simp: not_passes_def split: option.splits)

lemma not_passes_iff: "is_record t \<Longrightarrow> (not_passes t = Inr True) = (passes t \<noteq> Inr True)"
  by (auto dest!: is_record_cases simp: passes_def not_passes_def split: option.splits)

lemma comprehension_passes:
  "list_all is_record ts \<Longrightarrow> comprehension passes ts = Inr (filter (\<lambda>t. passes t = Inr True) ts)"
  by (rule comprehension_filter) (simp add: list_all_iff passes_record)

lemma comprehension_not_passes:
  "list_all is_record ts \<Longrightarrow>
   comprehension not_passes ts = Inr (filter (\<lambda>t. not_passes t = Inr True) ts)"
  by (rule comprehension_filter) (simp add: list_all_iff not_passes_record)

lemma partition_records:
  "list_all is_record ts \<Longrightarrow>
   mset ts = mset (filter (\<lambda>t. passes t = Inr True) ts) + mset (filter (\<lambda>t. not_passes t = Inr True) ts)"
  by (induction ts) (auto simp: not_passes_iff)

lemma partition_lengths:
  "list_all is_record ts \<Longrightarrow>
   length ts = length (filter (\<lambda>t. passes t = Inr True) ts) + length (filter (\<lambda>t. not_passes t = Inr True) ts)"
  by (induction ts) (auto simp: not_passes_iff)

lemma check_tasks_records:
  assumes "subscript data ''tasks'' = Inr (JList ts)" and "list_all is_record ts"
  shows "check_tasks (Some data) =
     emit (OpenFile store_path)
     (emit (count_line ''Total: '' (length ts))
     (emit (count_line ''Passing: '' (length (filter (\<lambda>t. passes t = Inr True) ts)))
     (emit (count_line ''Remaining: '' (length (filter (\<lambda>t. not_passes t = Inr True) ts)))
     (emit (Print [])
     (report_next (filter (\<lambda>t. not_passes t = Inr True) ts))))))"
  using assms by (simp add: check_tasks_def comprehension_passes comprehension_not_passes)

lemma filter_find:
  "find P ts = Some t \<Longrightarrow> \<exists>r. filter P ts = t # r"
  by (induction ts) (auto split: if_splits)


lemma scan_miss:
  "list_all (has_key ''id'') ts \<Longrightarrow> \<not> list_ex (id_is k) ts \<Longrightarrow> scan k ts = scan k []"
  by (induction ts) (auto simp: has_key_def id_is_def split: sum.splits)

lemma scan_skip:
  "list_all (id_differs k) pre \<Longrightarrow> scan k (pre @ ts) = scan k ts"
  by (induction pre) (auto simp: id_differs_def split: sum.splits)

lemma print_task_record:
  "map_of kvs ''title'' = Some ti \<Longrightarrow>
   print_task (JObj kvs) i =
     \<lparr>trace =
        [Print [Text ''# '', Val i, Text '': '', Val ti],
         Print [Text ''passes: '', Val (case map_of kvs ''passes'' of None \<Rightarrow> JBool False | Some v \<Rightarrow> v)],
         Print [Text (nl # ''Description:'' @ [nl]),
                Val (case map_of kvs ''description'' of None \<Rightarrow> JStr [] | Some v \<Rightarrow> v)],
         Print [Text (nl # ''Acceptance criteria (Gherkin):'' @ [nl]),
                Val (case map_of kvs ''acceptanceCriteria'' of None \<Rightarrow> JStr [] | Some v \<Rightarrow> v)]],
      status = Finished\<rparr>"
  by (simp add: print_task_def emit_def halt_def split: option.splits)

lemma usage_not_in_print_task: "Print usage \<notin> set (trace (print_task t i))"
  by (cases t) (simp_all add: print_task_def emit_def halt_def usage_def split: sum.splits option.splits)

lemma usage_not_in_scan: "Print usage \<notin> set (trace (scan k ts))"
  by (induction ts) (auto simp: emit_def halt_def usage_def not_found_def usage_not_in_print_task[unfolded usage_def] split: sum.splits)

lemma usage_not_in_lookup: "Print usage \<notin> set (trace (lookup k file))"
  using usage_not_in_scan[unfolded usage_def]
  by (auto simp: lookup_def emit_def halt_def usage_def split: sum.splits option.splits)

subsection \<open>The Task Detail Printer\<close>




text \<open>
  C2: as stated, the claim fails for an argument that is not an integer literal:
  \<open>int\<close> raises, nothing catches the \<open>ValueError\<close>, and no usage message is printed.
\<close>

theorem show_task_unparseable_counterexample:
  "py_int ''abc'' = None
   \<and> show_task py_int [''abc''] (Some example_store) = \<lparr>trace = [], status = Uncaught ValueError\<rparr>
   \<and> Print usage \<notin> set (trace (show_task py_int [''abc''] (Some example_store)))"
  by (simp add: arg_defs show_task_def run_defs)

text \<open>
  C2 (amended): an argument that parses to 0 gives the usage message on the standard
  output and exit status 1; an argument that does not parse ends the run with an uncaught
  \<open>ValueError\<close>, exit status 1, and nothing printed.
\<close>

theorem show_task_bad_argument:
  "(int_of a = Some 0 \<longrightarrow>
      show_task int_of (a # rest) file = \<lparr>trace = [Print usage], status = SysExit 1\<rparr>
      \<and> exit_status (status (show_task int_of (a # rest) file)) = 1)
   \<and> (int_of a = None \<longrightarrow>
      show_task int_of (a # rest) file = \<lparr>trace = [], status = Uncaught ValueError\<rparr>
      \<and> exit_status (status (show_task int_of (a # rest) file)) = 1)"
  by (simp add: show_task_def emit_def halt_def exit_status_def)

theorem show_task_bad_argument_witness:
  "py_int ''00'' = Some 0
   \<and> show_task py_int [''00''] (Some example_store) = \<lparr>trace = [Print usage], status = SysExit 1\<rparr>
   \<and> exit_status (status (show_task py_int [''00''] (Some example_store))) = 1
   \<and> py_int ''abc'' = None
   \<and> show_task py_int [''abc''] (Some example_store) = \<lparr>trace = [], status = Uncaught ValueError\<rparr>
   \<and> exit_status (status (show_task py_int [''abc''] (Some example_store))) = 1"
proof -
  have zero: "py_int ''00'' = Some 0" and bad: "py_int ''abc'' = None"
    by (simp_all add: arg_defs)
  from show_task_bad_argument [of py_int "''00''" "[]" "Some example_store"] zero
  have "show_task py_int [''00''] (Some example_store) = \<lparr>trace = [Print usage], status = SysExit 1\<rparr>
    \<and> exit_status (status (show_task py_int [''00''] (Some example_store))) = 1"
    by blast
  moreover from show_task_bad_argument [of py_int "''abc''" "[]" "Some example_store"] bad
  have "show_task py_int [''abc''] (Some example_store) = \<lparr>trace = [], status = Uncaught ValueError\<rparr>
    \<and> exit_status (status (show_task py_int [''abc''] (Some example_store))) = 1"
    by blast
  ultimately show ?thesis
    using zero bad by blast
qed

text \<open>
  C3: whatever the store, the argument \<open>0\<close> gives the run of no argument at
  all: the usage message and exit status 1. The store is a free variable, so a store with
  a record of \<open>id\<close> 0 is covered.
\<close>

theorem show_task_zero_argument:
  "show_task py_int [''0''] file = show_task py_int [] file
   \<and> show_task py_int [''0''] file = \<lparr>trace = [Print usage], status = SysExit 1\<rparr>
   \<and> exit_status (status (show_task py_int [''0''] file)) = 1"
  by (simp add: arg_defs show_task_def emit_def halt_def exit_status_def)

theorem show_task_zero_argument_witness:
  "show_task py_int [''0''] (Some zero_store) = show_task py_int [] (Some zero_store)
   \<and> show_task py_int [''0''] (Some zero_store) = \<lparr>trace = [Print usage], status = SysExit 1\<rparr>
   \<and> exit_status (status (show_task py_int [''0''] (Some zero_store))) = 1"
  by (rule show_task_zero_argument [of "Some zero_store"])

text \<open>
  C6: with no argument the script prints the usage message, exits with status
  1, and never opens the store: no \<open>OpenFile\<close> event is in the trace, and the run is the
  same whatever the file holds.
\<close>

theorem show_task_no_arguments:
  "show_task int_of [] file = \<lparr>trace = [Print usage], status = SysExit 1\<rparr>
   \<and> exit_status (status (show_task int_of [] file)) = 1
   \<and> OpenFile path \<notin> set (trace (show_task int_of [] file))
   \<and> show_task int_of [] file = show_task int_of [] file'"
  by (simp add: show_task_def emit_def halt_def exit_status_def)

theorem show_task_no_arguments_witness:
  "show_task py_int [] None = \<lparr>trace = [Print usage], status = SysExit 1\<rparr>
   \<and> exit_status (status (show_task py_int [] None)) = 1
   \<and> OpenFile store_path \<notin> set (trace (show_task py_int [] None))
   \<and> show_task py_int [] None = show_task py_int [] (Some example_store)"
  by (rule show_task_no_arguments [of py_int None store_path "Some example_store"])




text \<open>
  C10: an argument that parses to a nonzero integer \<open>k\<close>, negative ones included, is
  taken as the identifier. The run prints no usage message and starts by opening the
  store. When the store does not load, the run ends there with the uncaught error. When
  it loads, the sequence is searched for \<open>k\<close>: the first record whose \<open>id\<close> equals
  \<open>k\<close> is printed (the records before it having other \<open>id\<close>s, and the record a
  \<open>title\<close>), and the not-found message is printed when no record has that \<open>id\<close>. The
  usage message is printed exactly when there is no argument or the first argument parses
  to 0.
\<close>

theorem show_task_nonzero_argument:
  "(int_of a = Some k \<and> k \<noteq> 0 \<longrightarrow>
      Print usage \<notin> set (trace (show_task int_of (a # rest) file))
      \<and> hd (trace (show_task int_of (a # rest) file)) = OpenFile store_path
      \<and> (file = None \<longrightarrow>
           show_task int_of (a # rest) file =
             \<lparr>trace = [OpenFile store_path], status = Uncaught LoadError\<rparr>)
      \<and> (file = Some obj \<and> subscript obj ''tasks'' = Inr (JList (pre @ JObj kvs # post))
           \<and> list_all (id_differs k) pre
           \<and> map_of kvs ''id'' = Some i \<and> py_eq_int i k \<and> map_of kvs ''title'' = Some ti \<longrightarrow>
           show_task int_of (a # rest) file =
             \<lparr>trace =
                [OpenFile store_path,
                 Print [Text ''# '', Val i, Text '': '', Val ti],
                 Print [Text ''passes: '',
                        Val (case map_of kvs ''passes'' of None \<Rightarrow> JBool False | Some v \<Rightarrow> v)],
                 Print [Text (nl # ''Description:'' @ [nl]),
                        Val (case map_of kvs ''description'' of None \<Rightarrow> JStr [] | Some v \<Rightarrow> v)],
                 Print [Text (nl # ''Acceptance criteria (Gherkin):'' @ [nl]),
                        Val (case map_of kvs ''acceptanceCriteria'' of None \<Rightarrow> JStr [] | Some v \<Rightarrow> v)]],
              status = Finished\<rparr>)
      \<and> (file = Some obj \<and> subscript obj ''tasks'' = Inr (JList ts)
           \<and> list_all (has_key ''id'') ts \<and> \<not> list_ex (id_is k) ts \<longrightarrow>
           show_task int_of (a # rest) file =
             \<lparr>trace = [OpenFile store_path, Print [Text ''Task '', Val (JInt k), Text '' not found'']],
              status = SysExit 1\<rparr>))
   \<and> (Print usage \<in> set (trace (show_task int_of args file))) =
      (case args of [] \<Rightarrow> True | b # bs \<Rightarrow> int_of b = Some 0)"
proof -
  have usage_iff: "(Print usage \<in> set (trace (show_task int_of args file))) =
      (case args of [] \<Rightarrow> True | b # bs \<Rightarrow> int_of b = Some 0)"
    using usage_not_in_lookup
    by (auto simp: show_task_def emit_def halt_def split: list.splits option.splits)
  have nonzero: "Print usage \<notin> set (trace (show_task int_of (a # rest) file))
      \<and> hd (trace (show_task int_of (a # rest) file)) = OpenFile store_path
      \<and> (file = None \<longrightarrow>
           show_task int_of (a # rest) file =
             \<lparr>trace = [OpenFile store_path], status = Uncaught LoadError\<rparr>)
      \<and> (file = Some obj \<and> subscript obj ''tasks'' = Inr (JList (pre @ JObj kvs # post))
           \<and> list_all (id_differs k) pre
           \<and> map_of kvs ''id'' = Some i \<and> py_eq_int i k \<and> map_of kvs ''title'' = Some ti \<longrightarrow>
           show_task int_of (a # rest) file =
             \<lparr>trace =
                [OpenFile store_path,
                 Print [Text ''# '', Val i, Text '': '', Val ti],
                 Print [Text ''passes: '',
                        Val (case map_of kvs ''passes'' of None \<Rightarrow> JBool False | Some v \<Rightarrow> v)],
                 Print [Text (nl # ''Description:'' @ [nl]),
                        Val (case map_of kvs ''description'' of None \<Rightarrow> JStr [] | Some v \<Rightarrow> v)],
                 Print [Text (nl # ''Acceptance criteria (Gherkin):'' @ [nl]),
                        Val (case map_of kvs ''acceptanceCriteria'' of None \<Rightarrow> JStr [] | Some v \<Rightarrow> v)]],
              status = Finished\<rparr>)
      \<and> (file = Some obj \<and> subscript obj ''tasks'' = Inr (JList ts)
           \<and> list_all (has_key ''id'') ts \<and> \<not> list_ex (id_is k) ts \<longrightarrow>
           show_task int_of (a # rest) file =
             \<lparr>trace = [OpenFile store_path, Print [Text ''Task '', Val (JInt k), Text '' not found'']],
              status = SysExit 1\<rparr>)"
    if arg: "int_of a = Some k" and nz: "k \<noteq> 0"
  proof -
    have run: "show_task int_of (a # rest) file = lookup k file"
      using arg nz by (simp add: show_task_def)
    have no_usage: "Print usage \<notin> set (trace (lookup k file))"
      by (rule usage_not_in_lookup)
    have opens: "hd (trace (lookup k file)) = OpenFile store_path"
      by (simp add: lookup_def emit_def)
    have load: "lookup k None = \<lparr>trace = [OpenFile store_path], status = Uncaught LoadError\<rparr>"
      by (simp add: lookup_def emit_def halt_def)
    have found: "lookup k (Some obj) =
             \<lparr>trace =
                [OpenFile store_path,
                 Print [Text ''# '', Val i, Text '': '', Val ti],
                 Print [Text ''passes: '',
                        Val (case map_of kvs ''passes'' of None \<Rightarrow> JBool False | Some v \<Rightarrow> v)],
                 Print [Text (nl # ''Description:'' @ [nl]),
                        Val (case map_of kvs ''description'' of None \<Rightarrow> JStr [] | Some v \<Rightarrow> v)],
                 Print [Text (nl # ''Acceptance criteria (Gherkin):'' @ [nl]),
                        Val (case map_of kvs ''acceptanceCriteria'' of None \<Rightarrow> JStr [] | Some v \<Rightarrow> v)]],
              status = Finished\<rparr>"
      if "subscript obj ''tasks'' = Inr (JList (pre @ JObj kvs # post))"
        and "list_all (id_differs k) pre"
        and "map_of kvs ''id'' = Some i" and "py_eq_int i k" and "map_of kvs ''title'' = Some ti"
    proof -
      have "scan k (pre @ JObj kvs # post) = print_task (JObj kvs) i"
        using that(3,4) by (simp add: scan_skip [OF that(2)])
      then show ?thesis
        using that(1) by (simp add: lookup_def print_task_record [OF that(5)] emit_def)
    qed
    have missing: "lookup k (Some obj) =
             \<lparr>trace = [OpenFile store_path, Print [Text ''Task '', Val (JInt k), Text '' not found'']],
              status = SysExit 1\<rparr>"
      if "subscript obj ''tasks'' = Inr (JList ts)"
        and "list_all (has_key ''id'') ts" and "\<not> list_ex (id_is k) ts"
    proof -
      have "scan k ts = scan k []"
        using that(2,3) by (rule scan_miss)
      then show ?thesis
        using that(1) by (simp add: lookup_def emit_def halt_def not_found_def)
    qed
    from no_usage opens load found missing show ?thesis
      unfolding run by blast
  qed
  from usage_iff nonzero show ?thesis
    by blast
qed

theorem show_task_nonzero_argument_witness:
  "py_int ''-3'' = Some (- 3)
   \<and> Print usage \<notin> set (trace (show_task py_int [''-3''] (Some negative_store)))
   \<and> hd (trace (show_task py_int [''-3''] (Some negative_store))) = OpenFile store_path
   \<and> show_task py_int [''-3''] None = \<lparr>trace = [OpenFile store_path], status = Uncaught LoadError\<rparr>
   \<and> show_task py_int [''-3''] (Some negative_store) =
       \<lparr>trace =
          [OpenFile store_path,
           Print [Text ''# '', Val (JInt (- 3)), Text '': '', Val (JStr ''N'')],
           Print [Text ''passes: '', Val (JBool False)],
           Print [Text (nl # ''Description:'' @ [nl]), Val (JStr ''below zero'')],
           Print [Text (nl # ''Acceptance criteria (Gherkin):'' @ [nl]), Val (JStr [])]],
        status = Finished\<rparr>
   \<and> show_task py_int [''-3''] (Some example_store) =
       \<lparr>trace = [OpenFile store_path, Print [Text ''Task '', Val (JInt (- 3)), Text '' not found'']],
        status = SysExit 1\<rparr>
   \<and> Print usage \<in> set (trace (show_task py_int [''0''] (Some negative_store)))"
proof -
  let ?r1 = "JObj [(''id'', JInt 1), (''title'', JStr ''A'')]"
  let ?kvs = "[(''id'', JInt (- 3)), (''title'', JStr ''N''), (''description'', JStr ''below zero'')]"
  let ?ts = "[JObj [(''id'', JInt 1), (''title'', JStr ''A''), (''passes'', JBool True)],
              JObj [(''id'', JInt 2), (''title'', JStr ''B'')]]"
  have arg: "py_int ''-3'' = Some (- 3)" and zero: "py_int ''0'' = Some 0"
    by (simp_all add: arg_defs)
  have nz: "(- 3 :: int) \<noteq> 0"
    by simp
  have tasks: "subscript negative_store ''tasks'' = Inr (JList ([?r1] @ JObj ?kvs # []))"
    by (simp add: negative_store_def)
  have before: "list_all (id_differs (- 3)) [?r1]"
    by (simp add: id_differs_def)
  have rec: "map_of ?kvs ''id'' = Some (JInt (- 3))" "py_eq_int (JInt (- 3)) (- 3)"
    "map_of ?kvs ''title'' = Some (JStr ''N'')"
    by simp_all
  have tasks': "subscript example_store ''tasks'' = Inr (JList ?ts)"
    by (simp add: example_store_def)
  have ids: "list_all (has_key ''id'') ?ts" and absent: "\<not> list_ex (id_is (- 3)) ?ts"
    by (simp_all add: has_key_def id_is_def)
  note found = show_task_nonzero_argument [of py_int "''-3''" "- 3" "[]" "Some negative_store"
      negative_store "[?r1]" ?kvs "[]" "JInt (- 3)" "JStr ''N''" "[]" "[''0'']"]
  note missing = show_task_nonzero_argument [of py_int "''-3''" "- 3" "[]" "Some example_store"
      example_store "[]" "[]" "[]" JNull JNull ?ts "[]"]
  note load = show_task_nonzero_argument [of py_int "''-3''" "- 3" "[]" None
      example_store "[]" "[]" "[]" JNull JNull "[]" "[]"]
  have "Print usage \<notin> set (trace (show_task py_int [''-3''] (Some negative_store)))"
    and "hd (trace (show_task py_int [''-3''] (Some negative_store))) = OpenFile store_path"
    and "Print usage \<in> set (trace (show_task py_int [''0''] (Some negative_store)))"
    using found arg nz zero by simp_all
  moreover have "show_task py_int [''-3''] None =
      \<lparr>trace = [OpenFile store_path], status = Uncaught LoadError\<rparr>"
    using load arg nz by blast
  moreover have "show_task py_int [''-3''] (Some negative_store) =
       \<lparr>trace =
          [OpenFile store_path,
           Print [Text ''# '', Val (JInt (- 3)), Text '': '', Val (JStr ''N'')],
           Print [Text ''passes: '', Val (JBool False)],
           Print [Text (nl # ''Description:'' @ [nl]), Val (JStr ''below zero'')],
           Print [Text (nl # ''Acceptance criteria (Gherkin):'' @ [nl]), Val (JStr [])]],
        status = Finished\<rparr>"
    using found arg nz tasks before rec by simp
  moreover have "show_task py_int [''-3''] (Some example_store) =
       \<lparr>trace = [OpenFile store_path, Print [Text ''Task '', Val (JInt (- 3)), Text '' not found'']],
        status = SysExit 1\<rparr>"
    using missing arg nz tasks' ids absent by blast
  ultimately show ?thesis
    using arg by blast
qed

subsection \<open>The Summary Reporter\<close>

text \<open>
  C4: for a store whose elements are records, the run prints the three counts
  in this order, and the total is the sum of the other two: the records on which
  \<open>t.get('passes', False)\<close> is true and those on which it is not split the store, each
  record falling in exactly one part.
\<close>

theorem check_tasks_counts:
  assumes "subscript data ''tasks'' = Inr (JList ts)" and "list_all is_record ts"
  shows "trace (check_tasks (Some data)) =
       [OpenFile store_path,
        count_line ''Total: '' (length ts),
        count_line ''Passing: '' (length (filter (\<lambda>t. passes t = Inr True) ts)),
        count_line ''Remaining: '' (length (filter (\<lambda>t. not_passes t = Inr True) ts)),
        Print []]
       @ trace (report_next (filter (\<lambda>t. not_passes t = Inr True) ts))
   \<and> length ts = length (filter (\<lambda>t. passes t = Inr True) ts)
                 + length (filter (\<lambda>t. not_passes t = Inr True) ts)
   \<and> mset ts = mset (filter (\<lambda>t. passes t = Inr True) ts)
             + mset (filter (\<lambda>t. not_passes t = Inr True) ts)"
proof -
  have "trace (check_tasks (Some data)) =
       [OpenFile store_path,
        count_line ''Total: '' (length ts),
        count_line ''Passing: '' (length (filter (\<lambda>t. passes t = Inr True) ts)),
        count_line ''Remaining: '' (length (filter (\<lambda>t. not_passes t = Inr True) ts)),
        Print []]
       @ trace (report_next (filter (\<lambda>t. not_passes t = Inr True) ts))"
    by (simp add: check_tasks_records [OF assms] emit_def)
  then show ?thesis
    using partition_lengths [OF assms(2)] partition_records [OF assms(2)] by blast
qed

theorem check_tasks_counts_witness:
  "trace (check_tasks (Some example_store)) =
       [OpenFile store_path,
        Print [Text ''Total: '', Val (JInt 2)],
        Print [Text ''Passing: '', Val (JInt 1)],
        Print [Text ''Remaining: '', Val (JInt 1)],
        Print [],
        Print [Text ''Next not-passing task:''],
        Print [Text ''  ID: '', Val (JInt 2)],
        Print [Text ''  Title: '', Val (JStr ''B'')]]"
proof -
  let ?ts = "[JObj [(''id'', JInt 1), (''title'', JStr ''A''), (''passes'', JBool True)],
              JObj [(''id'', JInt 2), (''title'', JStr ''B'')]]"
  have tasks: "subscript example_store ''tasks'' = Inr (JList ?ts)"
    by (simp add: example_store_def)
  have recs: "list_all is_record ?ts"
    by (simp add: is_record_def)
  from check_tasks_counts [OF tasks recs] show ?thesis
    by (simp add: passes_def not_passes_def count_line_def report_next_def emit_def halt_def)
qed

text \<open>
  C5: for a store whose elements are records and whose remaining part is not
  empty, the lines after \<open>Next not-passing task:\<close> are read from the first element, in
  the order of the store, on which \<open>t.get('passes', False)\<close> is false: its \<open>id\<close>,
  then its \<open>title\<close>, as far as the record has them.
\<close>

theorem check_tasks_next:
  assumes "subscript data ''tasks'' = Inr (JList ts)" and "list_all is_record ts"
    and "find (\<lambda>t. not_passes t = Inr True) ts = Some t"
  shows "trace (check_tasks (Some data)) =
       [OpenFile store_path,
        count_line ''Total: '' (length ts),
        count_line ''Passing: '' (length (filter (\<lambda>t. passes t = Inr True) ts)),
        count_line ''Remaining: '' (length (filter (\<lambda>t. not_passes t = Inr True) ts)),
        Print [],
        Print [Text ''Next not-passing task:'']]
       @ (case subscript t ''id'' of
            Inl e \<Rightarrow> []
          | Inr ident \<Rightarrow>
              Print [Text ''  ID: '', Val ident]
              # (case subscript t ''title'' of
                   Inl e \<Rightarrow> []
                 | Inr title \<Rightarrow> [Print [Text ''  Title: '', Val title]]))"
proof -
  obtain r where "filter (\<lambda>t. not_passes t = Inr True) ts = t # r"
    using filter_find [OF assms(3)] by blast
  then show ?thesis
    by (simp add: check_tasks_records [OF assms(1,2)] report_next_def emit_def halt_def
        split: sum.splits)
qed

theorem check_tasks_next_witness:
  "trace (check_tasks (Some example_store)) =
       [OpenFile store_path,
        count_line ''Total: '' 2,
        count_line ''Passing: '' 1,
        count_line ''Remaining: '' 1,
        Print [],
        Print [Text ''Next not-passing task:''],
        Print [Text ''  ID: '', Val (JInt 2)],
        Print [Text ''  Title: '', Val (JStr ''B'')]]"
proof -
  let ?ts = "[JObj [(''id'', JInt 1), (''title'', JStr ''A''), (''passes'', JBool True)],
              JObj [(''id'', JInt 2), (''title'', JStr ''B'')]]"
  have tasks: "subscript example_store ''tasks'' = Inr (JList ?ts)"
    by (simp add: example_store_def)
  have recs: "list_all is_record ?ts"
    by (simp add: is_record_def)
  have first: "find (\<lambda>t. not_passes t = Inr True) ?ts = Some (JObj [(''id'', JInt 2), (''title'', JStr ''B'')])"
    by (simp add: not_passes_def)
  from check_tasks_next [OF tasks recs first] show ?thesis
    by (simp add: passes_def not_passes_def count_line_def)
qed




text \<open>
  C9: for a store whose \<open>tasks\<close> list is empty the run prints the three counts,
  all 0, the empty line and the message that all tasks are passing, and no line with an
  id or a title.
\<close>

theorem check_tasks_empty:
  assumes "subscript data ''tasks'' = Inr (JList [])"
  shows "check_tasks (Some data) =
       \<lparr>trace =
          [OpenFile store_path,
           Print [Text ''Total: '', Val (JInt 0)],
           Print [Text ''Passing: '', Val (JInt 0)],
           Print [Text ''Remaining: '', Val (JInt 0)],
           Print [],
           Print [Text ''All tasks are passing!'']],
        status = Finished\<rparr>
   \<and> Print [Text ''  ID: '', Val v] \<notin> set (trace (check_tasks (Some data)))
   \<and> Print [Text ''  Title: '', Val v] \<notin> set (trace (check_tasks (Some data)))"
  using assms
  by (simp add: check_tasks_def report_next_def count_line_def emit_def halt_def)

theorem check_tasks_empty_witness:
  "check_tasks (Some empty_store) =
       \<lparr>trace =
          [OpenFile store_path,
           Print [Text ''Total: '', Val (JInt 0)],
           Print [Text ''Passing: '', Val (JInt 0)],
           Print [Text ''Remaining: '', Val (JInt 0)],
           Print [],
           Print [Text ''All tasks are passing!'']],
        status = Finished\<rparr>"
proof -
  have tasks: "subscript empty_store ''tasks'' = Inr (JList [])"
    by (simp add: empty_store_def)
  from check_tasks_empty [OF tasks] show ?thesis
    by blast
qed

end
